theory Spec2Isabelle
  imports Complex_Main "HOL-Library.Char_ord" "HOL-Library.List_Lexorder"
begin

section \<open>Python values and helpers\<close>

text \<open>
  The memory and learning subsystem of the agent is written in Python. Python
  \<open>float\<close>s are modelled as exact reals (no rounding), Python \<open>int\<close>s as
  \<open>int\<close>, a \<open>dict\<close> as an association list in insertion order, and every exception
  the code can raise as the \<open>Inl\<close> branch of a sum. Values that come from
  \<open>uuid.uuid4()\<close>, \<open>datetime.utcnow()\<close> and \<open>random\<close> are inputs of the model.
\<close>

datatype py_error =
    ZeroDivisionError
  | TypeError
  | AttributeError
  | CollaboratorError

text \<open>\<open>xs[i:]\<close> for a Python list and an integer \<open>i\<close> (a negative \<open>i\<close> counts from the end).\<close>

definition py_slice_from :: "int \<Rightarrow> 'a list \<Rightarrow> 'a list" where
  "py_slice_from i xs =
     (if i < 0 then drop (nat (int (length xs) + i)) xs else drop (nat i) xs)"

text \<open>\<open>xs[-n:]\<close>, the slice both bounded histories are trimmed with. For \<open>n = 0\<close>
  Python reads \<open>xs[-0:]\<close> as \<open>xs[0:]\<close>, the whole list.\<close>

definition py_last_n :: "int \<Rightarrow> 'a list \<Rightarrow> 'a list" where
  "py_last_n n xs = py_slice_from (- n) xs"

text \<open>A Python value as the code passes it around (\<open>Any\<close>): JSON-like data.\<close>

datatype pyval =
    PNone
  | PBool bool
  | PInt int
  | PFloat real
  | PStr string
  | PList "pyval list"
  | PDict "(string \<times> pyval) list"

type_synonym pydict = "(string \<times> pyval) list"

text \<open>\<open>d.get(k)\<close>, \<open>k in d\<close> and \<open>d[k] = v\<close> (a new key goes last, an old one keeps
  its place).\<close>

definition dict_get :: "('k \<times> 'v) list \<Rightarrow> 'k \<Rightarrow> 'v option" where
  "dict_get d k = map_of d k"

definition dict_has :: "('k \<times> 'v) list \<Rightarrow> 'k \<Rightarrow> bool" where
  "dict_has d k = (map_of d k \<noteq> None)"

fun dict_set :: "'k \<Rightarrow> 'v \<Rightarrow> ('k \<times> 'v) list \<Rightarrow> ('k \<times> 'v) list" where
  "dict_set k v [] = [(k, v)]"
| "dict_set k v ((k', v') # d) = (if k' = k then (k, v) # d else (k', v') # dict_set k v d)"

text \<open>\<open>d.update(e)\<close>.\<close>

definition dict_update :: "('k \<times> 'v) list \<Rightarrow> ('k \<times> 'v) list \<Rightarrow> ('k \<times> 'v) list" where
  "dict_update d e = foldl (\<lambda>acc kv. dict_set (fst kv) (snd kv) acc) d e"

text \<open>Truthiness (\<open>if x\<close>, \<open>not x\<close>, \<open>x or y\<close>).\<close>

fun truthy :: "pyval \<Rightarrow> bool" where
  "truthy PNone = False"
| "truthy (PBool b) = b"
| "truthy (PInt i) = (i \<noteq> 0)"
| "truthy (PFloat x) = (x \<noteq> 0)"
| "truthy (PStr s) = (s \<noteq> [])"
| "truthy (PList xs) = (xs \<noteq> [])"
| "truthy (PDict d) = (d \<noteq> [])"

text \<open>\<open>s.startswith(p)\<close>.\<close>

definition startswith :: "string \<Rightarrow> string \<Rightarrow> bool" where
  "startswith s p = (take (length p) s = p)"

text \<open>
  Functions of the Python standard library the code calls, as parameters of the
  model: \<open>hashlib.md5(s.encode()).hexdigest()\<close>, \<open>json.dumps\<close> of a value whose
  dictionaries are written in the order they hold, \<open>json.loads\<close>, and \<open>str\<close>.
\<close>

record pylib =
  md5_hexdigest :: "string \<Rightarrow> string"
  json_dumps :: "pyval \<Rightarrow> string"
  json_loads :: "string \<Rightarrow> pyval option"
  py_str :: "pyval \<Rightarrow> string"

text \<open>\<open>sort_keys=True\<close>: \<open>json.dumps\<close> writes the items of every dictionary, at
  every depth, sorted by key.\<close>

fun sort_keys :: "pyval \<Rightarrow> pyval" where
  "sort_keys (PList xs) = PList (map sort_keys xs)"
| "sort_keys (PDict kvs) = PDict (sort_key fst (map (\<lambda>kv. (fst kv, sort_keys (snd kv))) kvs))"
| "sort_keys v = v"

definition json_dumps_sorted :: "pylib \<Rightarrow> pyval \<Rightarrow> string" where
  "json_dumps_sorted L v = json_dumps L (sort_keys v)"

text \<open>\<open>f"{v}"\<close>: a string is written as it is, any other value through \<open>str\<close>.\<close>

definition py_format :: "pylib \<Rightarrow> pyval \<Rightarrow> string" where
  "py_format L v = (case v of PStr s \<Rightarrow> s | _ \<Rightarrow> py_str L v)"

text \<open>
  A concrete library for evaluating the model on examples: the digest is the text
  itself (so distinct texts have distinct digests, as MD5 has for the texts of the
  examples), and the encoder writes the structure, the keys, the strings and the
  integers of a value and a placeholder for a float. No general theorem depends on it.
\<close>

function digits_of :: "nat \<Rightarrow> string" where
  "digits_of n =
     (if n < 10 then [char_of (48 + n)] else digits_of (n div 10) @ [char_of (48 + n mod 10)])"
  by pat_completeness auto
termination
  by (relation "measure (\<lambda>n. n)") auto

fun example_dumps :: "pyval \<Rightarrow> string" where
  "example_dumps PNone = ''null''"
| "example_dumps (PBool b) = (if b then ''true'' else ''false'')"
| "example_dumps (PInt i) = (if i < 0 then ''-'' @ digits_of (nat (- i)) else digits_of (nat i))"
| "example_dumps (PFloat x) = ''<float>''"
| "example_dumps (PStr s) = [CHR 0x22] @ s @ [CHR 0x22]"
| "example_dumps (PList xs) = ''['' @ concat (map (\<lambda>v. example_dumps v @ '', '') xs) @ '']''"
| "example_dumps (PDict kvs) =
     ''{'' @ concat (map (\<lambda>kv. [CHR 0x22] @ fst kv @ [CHR 0x22] @ '': ''
                                @ example_dumps (snd kv) @ '', '') kvs) @ ''}''"

definition example_lib :: pylib where
  "example_lib =
     \<lparr>md5_hexdigest = (\<lambda>s. s), json_dumps = example_dumps, json_loads = (\<lambda>s. None),
      py_str = example_dumps\<rparr>"

text \<open>
  Two payloads that are structurally equal and differ only in the order of the keys of
  their dictionaries (at any depth): Python's \<open>==\<close> on dictionaries, which compares
  the sizes and then every key's value. A Python dictionary holds each key once
  (\<open>wf_pyval\<close>).
\<close>

fun same_up_to_key_order :: "pyval \<Rightarrow> pyval \<Rightarrow> bool" where
  "same_up_to_key_order (PList xs) (PList ys) = list_all2 same_up_to_key_order xs ys"
| "same_up_to_key_order (PDict xs) (PDict ys) =
     (length xs = length ys
      \<and> list_all (\<lambda>kv. case map_of ys (fst kv) of
                          None \<Rightarrow> False
                        | Some w \<Rightarrow> same_up_to_key_order (snd kv) w) xs)"
| "same_up_to_key_order v w = (v = w)"

fun wf_pyval :: "pyval \<Rightarrow> bool" where
  "wf_pyval (PList xs) = list_all wf_pyval xs"
| "wf_pyval (PDict kvs) = (distinct (map fst kvs) \<and> list_all (\<lambda>kv. wf_pyval (snd kv)) kvs)"
| "wf_pyval v = True"

text \<open>A Python number (\<open>bool\<close> is an \<open>int\<close>); arithmetic on anything else raises
  \<open>TypeError\<close>.\<close>

fun as_number :: "pyval \<Rightarrow> real option" where
  "as_number (PInt i) = Some (real_of_int i)"
| "as_number (PFloat x) = Some x"
| "as_number (PBool b) = Some (if b then 1 else 0)"
| "as_number v = None"

text \<open>\<open>s.lower()\<close> on the ASCII letters.\<close>

definition lower_char :: "char \<Rightarrow> char" where
  "lower_char c = (if CHR ''A'' \<le> c \<and> c \<le> CHR ''Z'' then char_of (of_char c + (32::nat)) else c)"

definition py_lower :: "string \<Rightarrow> string" where
  "py_lower s = map lower_char s"

section \<open>DatabaseManager\<close>

text \<open>
  The relational store behind the semantic and the procedural tier. A row is the
  dictionary its \<open>to_dict()\<close> returns; the \<open>data\<close> column holds JSON text, and the
  model holds the dictionary that text denotes (\<open>{}\<close> when the column is empty). A
  table that is \<open>unavailable\<close> makes every query on it raise; the methods have
  \<open>try ... finally\<close> and no \<open>except\<close>, so the exception leaves them. Fresh row ids
  come from a counter.
\<close>

datatype table = TraderProfiles | MarketKnowledge | ActionPatterns

record trader_profile =
  tp_id :: nat
  tp_trader_id :: pyval
  tp_username :: pyval
  tp_successful_trades :: int
  tp_failed_trades :: int
  tp_reliability :: real
  tp_data :: pydict

record market_knowledge =
  mk_id :: nat
  mk_symbol :: pyval
  mk_name :: pyval
  mk_sector :: pyval
  mk_data :: pydict

record action_pattern =
  ap_id :: nat
  ap_pattern_type :: string
  ap_pattern_key :: string
  ap_success_count :: int
  ap_failure_count :: int
  ap_effectiveness :: real
  ap_data :: pydict

record database =
  trader_profiles :: "trader_profile list"
  market_knowledge :: "market_knowledge list"
  action_patterns :: "action_pattern list"
  unavailable :: "table list"
  next_id :: nat

text \<open>The keys an update dictionary may carry (\<open>if "username" in data: ...\<close>).\<close>

record trader_updates =
  tu_username :: "pyval option"
  tu_successful_trades :: "int option"
  tu_failed_trades :: "int option"
  tu_reliability :: "real option"
  tu_data :: "pydict option"

record market_updates =
  mu_name :: "pyval option"
  mu_sector :: "pyval option"
  mu_data :: "pydict option"

record pattern_updates =
  pu_success_count :: "int option"
  pu_failure_count :: "int option"
  pu_effectiveness :: "real option"
  pu_data :: "pydict option"

definition no_trader_updates :: trader_updates where
  "no_trader_updates =
     \<lparr>tu_username = None, tu_successful_trades = None, tu_failed_trades = None,
      tu_reliability = None, tu_data = None\<rparr>"

definition no_market_updates :: market_updates where
  "no_market_updates = \<lparr>mu_name = None, mu_sector = None, mu_data = None\<rparr>"

fun replace_first :: "('a \<Rightarrow> bool) \<Rightarrow> 'a \<Rightarrow> 'a list \<Rightarrow> 'a list" where
  "replace_first P y [] = []"
| "replace_first P y (x # xs) = (if P x then y # xs else x # replace_first P y xs)"

definition or_else :: "'a option \<Rightarrow> 'a \<Rightarrow> 'a" where
  "or_else x d = (case x of None \<Rightarrow> d | Some v \<Rightarrow> v)"

text \<open>\<open>data.get(k) if data else None\<close>.\<close>

definition get_if_data :: "pydict \<Rightarrow> string \<Rightarrow> pyval" where
  "get_if_data d k = (if d \<noteq> [] then or_else (dict_get d k) PNone else PNone)"

definition db_get_trader_profile :: "database \<Rightarrow> pyval \<Rightarrow> py_error + trader_profile option" where
  "db_get_trader_profile db trader_id =
     (if TraderProfiles \<in> set (unavailable db) then Inl CollaboratorError
      else Inr (find (\<lambda>p. tp_trader_id p = trader_id) (trader_profiles db)))"

text \<open>\<open>create_trader_profile\<close> sets only \<open>id\<close>, \<open>trader_id\<close>, \<open>username\<close> and
  \<open>data\<close>; the counters and the reliability take the column defaults 0, 0 and 0.5,
  and the whole dictionary passed in is the \<open>data\<close> column. The column
  \<open>trader_id\<close> is unique.\<close>

definition db_create_trader_profile ::
  "database \<Rightarrow> pyval \<Rightarrow> pydict \<Rightarrow> py_error + (trader_profile \<times> database)" where
  "db_create_trader_profile db trader_id d =
     (if TraderProfiles \<in> set (unavailable db) then Inl CollaboratorError
      else if find (\<lambda>p. tp_trader_id p = trader_id) (trader_profiles db) \<noteq> None
      then Inl CollaboratorError
      else
        let p = \<lparr>tp_id = next_id db, tp_trader_id = trader_id,
                 tp_username = get_if_data d ''username'', tp_successful_trades = 0,
                 tp_failed_trades = 0, tp_reliability = 0.5, tp_data = d\<rparr>
        in Inr (p, db\<lparr>trader_profiles := trader_profiles db @ [p], next_id := next_id db + 1\<rparr>))"

definition db_update_trader_profile ::
  "database \<Rightarrow> pyval \<Rightarrow> trader_updates \<Rightarrow> py_error + (trader_profile option \<times> database)" where
  "db_update_trader_profile db trader_id u =
     (if TraderProfiles \<in> set (unavailable db) then Inl CollaboratorError
      else case find (\<lambda>p. tp_trader_id p = trader_id) (trader_profiles db) of
        None \<Rightarrow> Inr (None, db)
      | Some p \<Rightarrow>
          let p' = p\<lparr>tp_username := or_else (tu_username u) (tp_username p),
                      tp_successful_trades :=
                        or_else (tu_successful_trades u) (tp_successful_trades p),
                      tp_failed_trades := or_else (tu_failed_trades u) (tp_failed_trades p),
                      tp_reliability := or_else (tu_reliability u) (tp_reliability p),
                      tp_data := (case tu_data u of None \<Rightarrow> tp_data p
                                  | Some e \<Rightarrow> dict_update (tp_data p) e)\<rparr>
          in Inr (Some p',
                  db\<lparr>trader_profiles :=
                       replace_first (\<lambda>q. tp_trader_id q = trader_id) p' (trader_profiles db)\<rparr>))"

definition db_get_market_knowledge ::
  "database \<Rightarrow> pyval \<Rightarrow> py_error + market_knowledge option" where
  "db_get_market_knowledge db symbol =
     (if MarketKnowledge \<in> set (unavailable db) then Inl CollaboratorError
      else Inr (find (\<lambda>k. mk_symbol k = symbol) (market_knowledge db)))"

definition db_create_market_knowledge ::
  "database \<Rightarrow> pyval \<Rightarrow> pydict \<Rightarrow> py_error + (market_knowledge \<times> database)" where
  "db_create_market_knowledge db symbol d =
     (if MarketKnowledge \<in> set (unavailable db) then Inl CollaboratorError
      else if find (\<lambda>k. mk_symbol k = symbol) (market_knowledge db) \<noteq> None
      then Inl CollaboratorError
      else
        let k = \<lparr>mk_id = next_id db, mk_symbol = symbol, mk_name = get_if_data d ''name'',
                 mk_sector = get_if_data d ''sector'', mk_data = d\<rparr>
        in Inr (k, db\<lparr>market_knowledge := market_knowledge db @ [k],
                       next_id := next_id db + 1\<rparr>))"

definition db_update_market_knowledge ::
  "database \<Rightarrow> pyval \<Rightarrow> market_updates
     \<Rightarrow> py_error + (market_knowledge option \<times> database)" where
  "db_update_market_knowledge db symbol u =
     (if MarketKnowledge \<in> set (unavailable db) then Inl CollaboratorError
      else case find (\<lambda>k. mk_symbol k = symbol) (market_knowledge db) of
        None \<Rightarrow> Inr (None, db)
      | Some k \<Rightarrow>
          let k' = k\<lparr>mk_name := or_else (mu_name u) (mk_name k),
                      mk_sector := or_else (mu_sector u) (mk_sector k),
                      mk_data := (case mu_data u of None \<Rightarrow> mk_data k
                                  | Some e \<Rightarrow> dict_update (mk_data k) e)\<rparr>
          in Inr (Some k',
                  db\<lparr>market_knowledge :=
                       replace_first (\<lambda>q. mk_symbol q = symbol) k' (market_knowledge db)\<rparr>))"

definition is_pattern :: "string \<Rightarrow> string \<Rightarrow> action_pattern \<Rightarrow> bool" where
  "is_pattern pattern_type pattern_key p =
     (ap_pattern_type p = pattern_type \<and> ap_pattern_key p = pattern_key)"

definition db_get_action_pattern ::
  "database \<Rightarrow> string \<Rightarrow> string \<Rightarrow> py_error + action_pattern option" where
  "db_get_action_pattern db pattern_type pattern_key =
     (if ActionPatterns \<in> set (unavailable db) then Inl CollaboratorError
      else Inr (find (is_pattern pattern_type pattern_key) (action_patterns db)))"

text \<open>\<open>create_action_pattern\<close> sets only \<open>id\<close>, \<open>pattern_type\<close>, \<open>pattern_key\<close>
  and \<open>data\<close>: the counts and the effectiveness of the new row are the column
  defaults 0, 0 and 0.5, and the dictionary passed in is the \<open>data\<close> column.\<close>

definition db_create_action_pattern ::
  "database \<Rightarrow> string \<Rightarrow> string \<Rightarrow> pydict \<Rightarrow> py_error + (action_pattern \<times> database)" where
  "db_create_action_pattern db pattern_type pattern_key d =
     (if ActionPatterns \<in> set (unavailable db) then Inl CollaboratorError
      else
        let p = \<lparr>ap_id = next_id db, ap_pattern_type = pattern_type,
                 ap_pattern_key = pattern_key, ap_success_count = 0, ap_failure_count = 0,
                 ap_effectiveness = 0.5, ap_data = d\<rparr>
        in Inr (p, db\<lparr>action_patterns := action_patterns db @ [p],
                       next_id := next_id db + 1\<rparr>))"

definition db_update_action_pattern ::
  "database \<Rightarrow> string \<Rightarrow> string \<Rightarrow> pattern_updates
     \<Rightarrow> py_error + (action_pattern option \<times> database)" where
  "db_update_action_pattern db pattern_type pattern_key u =
     (if ActionPatterns \<in> set (unavailable db) then Inl CollaboratorError
      else case find (is_pattern pattern_type pattern_key) (action_patterns db) of
        None \<Rightarrow> Inr (None, db)
      | Some p \<Rightarrow>
          let p' = p\<lparr>ap_success_count := or_else (pu_success_count u) (ap_success_count p),
                      ap_failure_count := or_else (pu_failure_count u) (ap_failure_count p),
                      ap_effectiveness := or_else (pu_effectiveness u) (ap_effectiveness p),
                      ap_data := (case pu_data u of None \<Rightarrow> ap_data p
                                  | Some e \<Rightarrow> dict_update (ap_data p) e)\<rparr>
          in Inr (Some p',
                  db\<lparr>action_patterns :=
                       replace_first (is_pattern pattern_type pattern_key) p'
                         (action_patterns db)\<rparr>))"

text \<open>\<open>get_action_patterns_by_type\<close>: the rows of the type, by effectiveness
  descending, at most \<open>limit\<close> of them. A negative \<open>limit\<close> is not modelled apart
  from returning nothing.\<close>

definition db_get_action_patterns_by_type ::
  "database \<Rightarrow> string \<Rightarrow> int \<Rightarrow> py_error + action_pattern list" where
  "db_get_action_patterns_by_type db pattern_type limit =
     (if ActionPatterns \<in> set (unavailable db) then Inl CollaboratorError
      else Inr (take (nat limit)
                  (sort_key (\<lambda>p. - ap_effectiveness p)
                     (filter (\<lambda>p. ap_pattern_type p = pattern_type) (action_patterns db)))))"

definition empty_db :: database where
  "empty_db =
     \<lparr>trader_profiles = [], market_knowledge = [], action_patterns = [], unavailable = [],
      next_id = 0\<rparr>"

section \<open>ProceduralMemory\<close>

text \<open>\<open>_generate_pattern_key\<close>: the MD5 digest of \<open>json.dumps(pattern_data,
  sort_keys=True)\<close>.\<close>

definition generate_pattern_key :: "pylib \<Rightarrow> pyval \<Rightarrow> string" where
  "generate_pattern_key L pattern_data = md5_hexdigest L (json_dumps_sorted L pattern_data)"

text \<open>Two example payloads with the same content, written in different key orders.\<close>

definition payload_a :: pydict where
  "payload_a = [(''symbol'', PStr ''AAPL''), (''action'', PStr ''buy''),
                (''meta'', PDict [(''x'', PInt 1), (''y'', PInt 2)])]"

definition payload_b :: pydict where
  "payload_b = [(''meta'', PDict [(''y'', PInt 2), (''x'', PInt 1)]),
                (''action'', PStr ''buy''), (''symbol'', PStr ''AAPL'')]"

record procedural_memory =
  pattern_cache :: "(string \<times> action_pattern) list"

text \<open>\<open>store_pattern(pattern_type, pattern_data, success)\<close> on the tier and the store
  it shares with the semantic tier. An exception of the store leaves the method.\<close>

definition store_pattern ::
  "pylib \<Rightarrow> string \<Rightarrow> pyval \<Rightarrow> bool \<Rightarrow> procedural_memory \<times> database
     \<Rightarrow> py_error + (action_pattern \<times> procedural_memory \<times> database)" where
  "store_pattern L pattern_type pattern_data success st =
     (let (pm, db) = st;
          pattern_key = generate_pattern_key L pattern_data
      in case db_get_action_pattern db pattern_type pattern_key of
           Inl e \<Rightarrow> Inl e
         | Inr (Some existing) \<Rightarrow>
             (let success_count = ap_success_count existing + (if success then 1 else 0);
                  failure_count = ap_failure_count existing + (if success then 0 else 1);
                  total = success_count + failure_count;
                  effectiveness =
                    (if total > 0 then Some (real_of_int success_count / real_of_int total)
                     else None);
                  pattern_data_dict =
                    or_else (dict_get (ap_data existing) ''pattern_data'') (PDict []);
                  updates =
                    \<lparr>pu_success_count = Some success_count, pu_failure_count = Some failure_count,
                     pu_effectiveness = effectiveness,
                     pu_data = Some [(''pattern_data'', pattern_data_dict)]\<rparr>
              in case db_update_action_pattern db pattern_type pattern_key updates of
                   Inl e \<Rightarrow> Inl e
                 | Inr (Some updated, db') \<Rightarrow>
                     Inr (updated,
                          pm\<lparr>pattern_cache :=
                               dict_set (pattern_type @ '':'' @ pattern_key) updated
                                 (pattern_cache pm)\<rparr>, db')
                 | Inr (None, db') \<Rightarrow> Inr (existing, pm, db'))
         | Inr None \<Rightarrow>
             (case db_create_action_pattern db pattern_type pattern_key
                     [(''success_count'', PInt (if success then 1 else 0)),
                      (''failure_count'', PInt (if success then 0 else 1)),
                      (''effectiveness'', PFloat (if success then 1.0 else 0.0)),
                      (''data'', PDict [(''pattern_data'', pattern_data)])] of
                Inl e \<Rightarrow> Inl e
              | Inr (new_pattern, db') \<Rightarrow>
                  Inr (new_pattern,
                       pm\<lparr>pattern_cache :=
                            dict_set (pattern_type @ '':'' @ pattern_key) new_pattern
                              (pattern_cache pm)\<rparr>, db')))"

text \<open>The invariant of the specification's data model on a stored pattern.\<close>

definition effectiveness_is_ratio :: "action_pattern \<Rightarrow> bool" where
  "effectiveness_is_ratio p =
     (ap_effectiveness p
        = real_of_int (ap_success_count p)
            / real_of_int (ap_success_count p + ap_failure_count p))"

section \<open>FeedbackProcessor\<close>

record feedback_processor =
  positive_threshold :: real
  negative_threshold :: real
  feedback_weight :: real
  outcome_weight :: real
  feedback_decay :: real
  feedback_history :: "pydict list"

text \<open>Modelled from the spec: the append-only stores for feedback records and trade
  outcomes that the processor calls as \<open>db_manager.store_feedback\<close> and
  \<open>db_manager.store_trade_outcome\<close>; the \<open>DatabaseManager\<close> of the repository
  defines neither. The processor catches whatever they raise.\<close>

record feedback_store =
  stored_feedback :: "pydict list"
  stored_outcomes :: "pydict list"
  store_raises :: bool

definition store_feedback :: "feedback_store \<Rightarrow> pydict \<Rightarrow> feedback_store" where
  "store_feedback fs r =
     (if store_raises fs then fs else fs\<lparr>stored_feedback := stored_feedback fs @ [r]\<rparr>)"

definition store_trade_outcome :: "feedback_store \<Rightarrow> pydict \<Rightarrow> feedback_store" where
  "store_trade_outcome fs r =
     (if store_raises fs then fs else fs\<lparr>stored_outcomes := stored_outcomes fs @ [r]\<rparr>)"

text \<open>The blend \<open>old * decay + value * (1 - decay)\<close>, clamped to \<open>[0, 1]\<close>.\<close>

definition decayed_update :: "feedback_processor \<Rightarrow> real \<Rightarrow> real \<Rightarrow> real" where
  "decayed_update fp old v =
     max 0 (min 1 (old * feedback_decay fp + v * (1 - feedback_decay fp)))"

text \<open>\<open>if len(h) > 100: h = h[-100:]\<close>.\<close>

definition limit_history :: "'a list \<Rightarrow> 'a list" where
  "limit_history h = (if length h > 100 then py_last_n 100 h else h)"

text \<open>The body of the \<open>try\<close> block shared by \<open>_update_signal_model\<close> and
  \<open>_update_trader_model\<close>, from the row's \<open>data\<close> dictionary to the dictionary
  written back: the reliability is blended, and the feedback entry is appended to
  \<open>feedback_history\<close>, which is then cut to its last 100 entries.\<close>

definition updated_model_data ::
  "feedback_processor \<Rightarrow> string \<Rightarrow> pydict \<Rightarrow> real \<Rightarrow> pydict \<Rightarrow> py_error + pydict" where
  "updated_model_data fp now d v model_data =
     (case as_number (or_else (dict_get model_data ''reliability'') (PFloat 0.5)) of
        None \<Rightarrow> Inl TypeError
      | Some reliability \<Rightarrow>
          (let new_reliability = decayed_update fp reliability v;
               d1 = dict_set ''reliability'' (PFloat new_reliability) model_data;
               d2 = (if dict_has d1 ''feedback_history'' then d1
                     else dict_set ''feedback_history'' (PList []) d1);
               entry = PDict [(''value'', PFloat v), (''timestamp'', PStr now),
                              (''source'', or_else (dict_get d ''source'') (PStr ''unknown''))]
           in case dict_get d2 ''feedback_history'' of
                Some (PList h) \<Rightarrow>
                  Inr (dict_set ''feedback_history'' (PList (limit_history (h @ [entry]))) d2)
              | _ \<Rightarrow> Inl AttributeError))"

text \<open>\<open>_update_signal_model\<close>: without a \<open>symbol\<close> nothing happens. The \<open>try\<close>
  block returns the store as it is when the block ends or an exception leaves it
  (a row created before the exception stays created), with the exception, which the
  handler prints and drops.\<close>

definition try_update_signal_model ::
  "feedback_processor \<Rightarrow> string \<Rightarrow> pydict \<Rightarrow> real \<Rightarrow> pyval \<Rightarrow> database
     \<Rightarrow> database \<times> py_error option" where
  "try_update_signal_model fp now d v symbol db =
     (case db_get_market_knowledge db symbol of
        Inl e \<Rightarrow> (db, Some e)
      | Inr found \<Rightarrow>
          (case (case found of
                   Some k \<Rightarrow> Inr (k, db)
                 | None \<Rightarrow> db_create_market_knowledge db symbol []) of
             Inl e \<Rightarrow> (db, Some e)
           | Inr (knowledge, db1) \<Rightarrow>
               (case updated_model_data fp now d v (mk_data knowledge) of
                  Inl e \<Rightarrow> (db1, Some e)
                | Inr market_data \<Rightarrow>
                    (case db_update_market_knowledge db1 symbol
                            (no_market_updates\<lparr>mu_data := Some market_data\<rparr>) of
                       Inl e \<Rightarrow> (db1, Some e)
                     | Inr (r, db2) \<Rightarrow> (db2, None)))))"

definition update_signal_model ::
  "feedback_processor \<Rightarrow> string \<Rightarrow> pydict \<Rightarrow> real \<Rightarrow> database \<Rightarrow> database" where
  "update_signal_model fp now d v db =
     (case dict_get d ''symbol'' of
        None \<Rightarrow> db
      | Some symbol \<Rightarrow> fst (try_update_signal_model fp now d v symbol db))"

definition try_update_trader_model ::
  "feedback_processor \<Rightarrow> string \<Rightarrow> pydict \<Rightarrow> real \<Rightarrow> pyval \<Rightarrow> database
     \<Rightarrow> database \<times> py_error option" where
  "try_update_trader_model fp now d v trader_id db =
     (case db_get_trader_profile db trader_id of
        Inl e \<Rightarrow> (db, Some e)
      | Inr found \<Rightarrow>
          (case (case found of
                   Some p \<Rightarrow> Inr (p, db)
                 | None \<Rightarrow> db_create_trader_profile db trader_id []) of
             Inl e \<Rightarrow> (db, Some e)
           | Inr (profile, db1) \<Rightarrow>
               (case updated_model_data fp now d v (tp_data profile) of
                  Inl e \<Rightarrow> (db1, Some e)
                | Inr profile_data \<Rightarrow>
                    (case db_update_trader_profile db1 trader_id
                            (no_trader_updates\<lparr>tu_data := Some profile_data\<rparr>) of
                       Inl e \<Rightarrow> (db1, Some e)
                     | Inr (r, db2) \<Rightarrow> (db2, None)))))"

definition update_trader_model ::
  "feedback_processor \<Rightarrow> string \<Rightarrow> pydict \<Rightarrow> real \<Rightarrow> database \<Rightarrow> database" where
  "update_trader_model fp now d v db =
     (case dict_get d ''trader_id'' of
        None \<Rightarrow> db
      | Some trader_id \<Rightarrow> fst (try_update_trader_model fp now d v trader_id db))"

text \<open>\<open>_update_strategy_model\<close>: the stored effectiveness becomes the clamped blend
  of the old effectiveness and the feedback value; a count grows only when the value
  is beyond a threshold. A \<open>pattern_type\<close> or \<open>pattern_key\<close> that is not a string
  names no row.\<close>

definition as_str :: "pyval \<Rightarrow> string option" where
  "as_str v = (case v of PStr s \<Rightarrow> Some s | _ \<Rightarrow> None)"

definition update_action_pattern_from_feedback ::
  "feedback_processor \<Rightarrow> real \<Rightarrow> string \<Rightarrow> string \<Rightarrow> database \<Rightarrow> database" where
  "update_action_pattern_from_feedback fp v t k db =
     (case db_get_action_pattern db t k of
        Inr (Some action_pattern) \<Rightarrow>
          (let new_effectiveness = decayed_update fp (ap_effectiveness action_pattern) v;
               success_count =
                 (if v > positive_threshold fp then ap_success_count action_pattern + 1
                  else ap_success_count action_pattern);
               failure_count =
                 (if v > positive_threshold fp then ap_failure_count action_pattern
                  else if v < negative_threshold fp then ap_failure_count action_pattern + 1
                  else ap_failure_count action_pattern)
           in case db_update_action_pattern db t k
                     \<lparr>pu_success_count = Some success_count,
                      pu_failure_count = Some failure_count,
                      pu_effectiveness = Some new_effectiveness, pu_data = None\<rparr> of
                Inr (r, db') \<Rightarrow> db'
              | Inl e \<Rightarrow> db)
      | _ \<Rightarrow> db)"

definition update_strategy_model ::
  "feedback_processor \<Rightarrow> pydict \<Rightarrow> real \<Rightarrow> database \<Rightarrow> database" where
  "update_strategy_model fp d v db =
     (if \<not> dict_has d ''strategy_id'' \<and> \<not> dict_has d ''pattern_type'' then db
      else
        let strategy_id = or_else (dict_get d ''strategy_id'') PNone;
            pattern_type = or_else (dict_get d ''pattern_type'') PNone;
            pattern_key = or_else (dict_get d ''pattern_key'') PNone
        in if \<not> truthy strategy_id \<and> \<not> (truthy pattern_type \<and> truthy pattern_key) then db
           else if truthy pattern_type \<and> truthy pattern_key then
             (case as_str pattern_type of
                None \<Rightarrow> db
              | Some t \<Rightarrow>
                  (case as_str pattern_key of
                     None \<Rightarrow> db
                   | Some k \<Rightarrow> update_action_pattern_from_feedback fp v t k db))
           else db)"

text \<open>The normalisation of the feedback value: keywords for a string, the clamp to
  \<open>[-1, 1]\<close> for a number; \<open>float(x)\<close> of anything else raises.\<close>

definition normalize_value :: "pyval \<Rightarrow> py_error + real" where
  "normalize_value feedback_value =
     (case feedback_value of
        PStr s \<Rightarrow>
          (if py_lower s \<in> set [''positive'', ''good'', ''yes''] then Inr 1
           else if py_lower s \<in> set [''negative'', ''bad'', ''no''] then Inr (- 1)
           else Inr 0)
      | _ \<Rightarrow>
          (case as_number feedback_value of
             Some x \<Rightarrow> Inr (max (- 1) (min 1 x))
           | None \<Rightarrow> Inl TypeError))"

record feedback_result =
  fr_feedback_id :: string
  fr_status :: string
  fr_applied_to :: pyval
  fr_normalized_value :: real

definition process_user_feedback ::
  "string \<Rightarrow> string \<Rightarrow> pydict \<Rightarrow> feedback_processor \<times> feedback_store \<times> database
     \<Rightarrow> py_error + (feedback_result \<times> feedback_processor \<times> feedback_store \<times> database)" where
  "process_user_feedback uid now feedback_data st =
     (let (fp, fs, db) = st;
          feedback_type = or_else (dict_get feedback_data ''type'') (PStr ''general'');
          feedback_value = or_else (dict_get feedback_data ''value'') (PFloat 0.0);
          feedback_text = or_else (dict_get feedback_data ''text'') (PStr '''')
      in case normalize_value feedback_value of
           Inl e \<Rightarrow> Inl e
         | Inr normalized_value \<Rightarrow>
             (let feedback_record =
                    [(''id'', PStr uid), (''type'', feedback_type),
                     (''value'', PFloat normalized_value), (''text'', feedback_text),
                     (''timestamp'', PStr now), (''source'', PStr ''user'')];
                  fp' = fp\<lparr>feedback_history := feedback_history fp @ [feedback_record]\<rparr>;
                  fs' = store_feedback fs feedback_record;
                  db' =
                    (if feedback_type = PStr ''trade_signal''
                     then update_signal_model fp now feedback_data normalized_value db
                     else if feedback_type = PStr ''trader_reliability''
                     then update_trader_model fp now feedback_data normalized_value db
                     else if feedback_type = PStr ''strategy''
                     then update_strategy_model fp feedback_data normalized_value db
                     else db)
              in Inr (\<lparr>fr_feedback_id = uid, fr_status = ''processed'',
                       fr_applied_to = feedback_type,
                       fr_normalized_value = normalized_value\<rparr>, fp', fs', db')))"

text \<open>\<open>_calculate_reward\<close>: \<open>outcome.lower()\<close> needs a string, and
  \<open>profit_loss / 100\<close> a number.\<close>

definition calculate_reward :: "pyval \<Rightarrow> pyval \<Rightarrow> py_error + real" where
  "calculate_reward outcome profit_loss =
     (case outcome of
        PStr s \<Rightarrow>
          (if py_lower s = ''success'' then
             (case as_number profit_loss of
                Some x \<Rightarrow> Inr (min 1.0 (max 0.1 (x / 100))) | None \<Rightarrow> Inl TypeError)
           else if py_lower s = ''failure'' then
             (case as_number profit_loss of
                Some x \<Rightarrow> Inr (max (- 1.0) (min (- 0.1) (x / 100))) | None \<Rightarrow> Inl TypeError)
           else Inr 0.0)
      | _ \<Rightarrow> Inl AttributeError)"

record outcome_result =
  or_outcome_id :: string
  or_reward :: real
  or_status :: string

definition process_trade_outcome ::
  "string \<Rightarrow> string \<Rightarrow> string \<Rightarrow> pydict \<Rightarrow> feedback_processor \<times> feedback_store \<times> database
     \<Rightarrow> py_error + (outcome_result \<times> feedback_processor \<times> feedback_store \<times> database)" where
  "process_trade_outcome uid1 uid2 now trade_data st =
     (let (fp, fs, db) = st;
          trade_id = or_else (dict_get trade_data ''trade_id'') (PStr uid1);
          symbol = or_else (dict_get trade_data ''symbol'') (PStr '''');
          action = or_else (dict_get trade_data ''action'') (PStr '''');
          outcome = or_else (dict_get trade_data ''outcome'') (PStr ''unknown'');
          profit_loss = or_else (dict_get trade_data ''profit_loss'') (PFloat 0.0)
      in case calculate_reward outcome profit_loss of
           Inl e \<Rightarrow> Inl e
         | Inr reward \<Rightarrow>
             (let outcome_record =
                    [(''id'', PStr uid2), (''trade_id'', trade_id), (''symbol'', symbol),
                     (''action'', action), (''outcome'', outcome),
                     (''profit_loss'', profit_loss), (''reward'', PFloat reward),
                     (''timestamp'', PStr now), (''source'', PStr ''system'')];
                  fp' = fp\<lparr>feedback_history := feedback_history fp @ [outcome_record]\<rparr>;
                  fs' = store_trade_outcome fs outcome_record;
                  db1 = update_signal_model fp now
                          [(''symbol'', symbol), (''action'', action), (''outcome'', outcome)]
                          reward db;
                  db2 =
                    (case dict_get trade_data ''trader_id'' of
                       Some trader_id \<Rightarrow>
                         update_trader_model fp now
                           [(''trader_id'', trader_id), (''outcome'', outcome)] reward db1
                     | None \<Rightarrow> db1)
              in Inr (\<lparr>or_outcome_id = uid2, or_reward = reward, or_status = ''processed''\<rparr>,
                      fp', fs', db2)))"

text \<open>The test configuration of the feedback processor.\<close>

definition default_fp :: "pydict list \<Rightarrow> feedback_processor" where
  "default_fp h =
     \<lparr>positive_threshold = 0.7, negative_threshold = 0.3, feedback_weight = 0.8,
      outcome_weight = 0.6, feedback_decay = 0.9, feedback_history = h\<rparr>"

definition empty_store :: feedback_store where
  "empty_store = \<lparr>stored_feedback = [], stored_outcomes = [], store_raises = False\<rparr>"

text \<open>The cap on a row's \<open>feedback_history\<close>: when the \<open>data\<close> dictionary holds a list
  under that key, the list has at most 100 entries. Each key of a \<open>data\<close> dictionary
  occurs once, as in every Python dictionary.\<close>

definition history_capped :: "pydict \<Rightarrow> bool" where
  "history_capped d =
     (case dict_get d ''feedback_history'' of Some (PList h) \<Rightarrow> length h \<le> 100 | _ \<Rightarrow> True)"

definition wf_markets :: "database \<Rightarrow> bool" where
  "wf_markets db = list_all (\<lambda>k. distinct (map fst (mk_data k))) (market_knowledge db)"

definition wf_traders :: "database \<Rightarrow> bool" where
  "wf_traders db = list_all (\<lambda>p. distinct (map fst (tp_data p))) (trader_profiles db)"

text \<open>The rows of the second store that are not rows of the first: the rows a call
  has written.\<close>

definition written_markets :: "database \<Rightarrow> database \<Rightarrow> market_knowledge list" where
  "written_markets db db' = filter (\<lambda>k. k \<notin> set (market_knowledge db)) (market_knowledge db')"

definition written_traders :: "database \<Rightarrow> database \<Rightarrow> trader_profile list" where
  "written_traders db db' = filter (\<lambda>p. p \<notin> set (trader_profiles db)) (trader_profiles db')"

section \<open>ReinforcementLearning\<close>

record action_entry =
  ae_state :: pyval
  ae_action :: pyval
  ae_type :: string
  ae_q_value :: "real option"

record reinforcement_learning =
  learning_rate :: real
  discount_factor :: real
  exploration_rate :: real
  min_exploration_rate :: real
  exploration_decay :: real
  reward_scale :: real
  q_values :: "(string \<times> real) list"
  state_transitions :: "(string \<times> int) list"
  action_history :: "action_entry list"

definition get_state_key :: "pylib \<Rightarrow> pyval \<Rightarrow> string" where
  "get_state_key L state =
     (case state of
        PStr s \<Rightarrow> ''state:'' @ s
      | PDict d \<Rightarrow> ''state:'' @ md5_hexdigest L (json_dumps_sorted L state)
      | _ \<Rightarrow> ''state:'' @ md5_hexdigest L (py_str L state))"

definition get_action_key :: "pylib \<Rightarrow> pyval \<Rightarrow> string" where
  "get_action_key L action =
     (case action of
        PStr s \<Rightarrow> ''action:'' @ s
      | PDict d \<Rightarrow> ''action:'' @ md5_hexdigest L (json_dumps_sorted L action)
      | _ \<Rightarrow> ''action:'' @ md5_hexdigest L (py_str L action))"

definition get_state_action_key :: "string \<Rightarrow> string \<Rightarrow> string" where
  "get_state_action_key state_key action_key = state_key @ ''|'' @ action_key"

text \<open>\<open>max(xs)\<close> of a non-empty list.\<close>

fun py_max :: "real list \<Rightarrow> real" where
  "py_max [] = 0"
| "py_max (x # xs) = foldl max x xs"

text \<open>The loop over \<open>self.q_values.items()\<close> that collects the Q-values of the keys
  starting with \<open>f"{next_state_key}|"\<close>.\<close>

definition next_q_values :: "(string \<times> real) list \<Rightarrow> string \<Rightarrow> real list" where
  "next_q_values qs next_state_key =
     map snd (filter (\<lambda>kv. startswith (fst kv) (next_state_key @ ''|'')) qs)"


definition update_q_value ::
  "pylib \<Rightarrow> pyval \<Rightarrow> pyval \<Rightarrow> real \<Rightarrow> pyval \<Rightarrow> reinforcement_learning
     \<Rightarrow> real \<times> reinforcement_learning" where
  "update_q_value L state action reward next_state rl =
     (let scaled_reward = reward * reward_scale rl;
          state_key = get_state_key L state;
          action_key = get_action_key L action;
          next_state_key = get_state_key L next_state;
          state_action_key = get_state_action_key state_key action_key;
          current_q = (case dict_get (q_values rl) state_action_key of None \<Rightarrow> 0 | Some q \<Rightarrow> q);
          nqs = next_q_values (q_values rl) next_state_key;
          max_next_q = (if nqs \<noteq> [] then py_max nqs else 0);
          new_q = current_q
                  + learning_rate rl * (scaled_reward + discount_factor rl * max_next_q - current_q);
          transition_key = state_key @ ''|'' @ next_state_key;
          count = (case dict_get (state_transitions rl) transition_key of None \<Rightarrow> 0 | Some c \<Rightarrow> c)
      in (new_q,
          rl\<lparr>q_values := dict_set state_action_key new_q (q_values rl),
             state_transitions := dict_set transition_key (count + 1) (state_transitions rl),
             exploration_rate :=
               max (min_exploration_rate rl) (exploration_rate rl * exploration_decay rl)\<rparr>))"

text \<open>\<open>select_action\<close>: \<open>rnd\<close> is the value of \<open>random.random()\<close>, and \<open>pick\<close>
  decides \<open>random.choice\<close>, which returns one of the elements of a non-empty list. The
  candidates are sorted by Q-value, descending; Python's sort is stable, also with
  \<open>reverse=True\<close>.\<close>

definition random_choice :: "nat \<Rightarrow> 'a list \<Rightarrow> 'a" where
  "random_choice pick xs = xs ! (pick mod length xs)"

definition select_action ::
  "pylib \<Rightarrow> real \<Rightarrow> nat \<Rightarrow> pyval \<Rightarrow> pyval list \<Rightarrow> reinforcement_learning
     \<Rightarrow> pyval \<times> reinforcement_learning" where
  "select_action L rnd pick state possible_actions rl =
     (if possible_actions = [] then (PNone, rl)
      else if rnd < exploration_rate rl then
        (let selected_action = random_choice pick possible_actions
         in (selected_action,
             rl\<lparr>action_history := action_history rl @
                  [\<lparr>ae_state = state, ae_action = selected_action, ae_type = ''exploration'',
                    ae_q_value = None\<rparr>]\<rparr>))
      else
        (let state_key = get_state_key L state;
             qvs = map (\<lambda>action.
                     (action,
                      case dict_get (q_values rl)
                             (get_state_action_key state_key (get_action_key L action)) of
                        None \<Rightarrow> 0 | Some q \<Rightarrow> q)) possible_actions;
             sorted = sort_key (\<lambda>x. - snd x) qvs;
             selected_action = fst (hd sorted)
         in (selected_action,
             rl\<lparr>action_history := action_history rl @
                  [\<lparr>ae_state = state, ae_action = selected_action, ae_type = ''exploitation'',
                    ae_q_value = Some (snd (hd sorted))\<rparr>]\<rparr>)))"

text \<open>\<open>save_model\<close> and \<open>load_model\<close>: the model data is a dictionary whose three
  entries may be missing on load.\<close>

record model_data =
  md_q_values :: "(string \<times> real) list option"
  md_state_transitions :: "(string \<times> int) list option"
  md_exploration_rate :: "real option"

definition save_model :: "reinforcement_learning \<Rightarrow> model_data" where
  "save_model rl =
     \<lparr>md_q_values = Some (q_values rl), md_state_transitions = Some (state_transitions rl),
      md_exploration_rate = Some (exploration_rate rl)\<rparr>"

definition load_model :: "model_data \<Rightarrow> reinforcement_learning \<Rightarrow> reinforcement_learning" where
  "load_model md rl =
     rl\<lparr>q_values := (case md_q_values md of None \<Rightarrow> [] | Some q \<Rightarrow> q),
        state_transitions := (case md_state_transitions md of None \<Rightarrow> [] | Some t \<Rightarrow> t),
        exploration_rate :=
          (case md_exploration_rate md of None \<Rightarrow> exploration_rate rl | Some e \<Rightarrow> e)\<rparr>"

text \<open>A sequence of \<open>update_q_value\<close> calls, each \<open>(state, action, reward, next_state)\<close>.\<close>

definition run_updates ::
  "pylib \<Rightarrow> (pyval \<times> pyval \<times> real \<times> pyval) list \<Rightarrow> reinforcement_learning
     \<Rightarrow> reinforcement_learning" where
  "run_updates L calls rl =
     foldl (\<lambda>r c. snd (update_q_value L (fst c) (fst (snd c)) (fst (snd (snd c)))
                          (snd (snd (snd c))) r)) rl calls"

text \<open>The configuration of the repository's tests and defaults; \<open>e\<close> is the
  exploration rate.\<close>

definition default_rl :: "real \<Rightarrow> reinforcement_learning" where
  "default_rl e =
     \<lparr>learning_rate = 0.1, discount_factor = 0.9, exploration_rate = e,
      min_exploration_rate = 0.01, exploration_decay = 0.995, reward_scale = 1.0,
      q_values = [], state_transitions = [], action_history = []\<rparr>"

section \<open>PerformanceTracker.calculate_metrics\<close>

















section \<open>Properties\<close>

subsection \<open>Dictionaries and bounded histories\<close>

lemma map_of_dict_set: "map_of (dict_set k v d) k' = (if k' = k then Some v else map_of d k')"
  by (induction d) auto

lemma keys_dict_set:
  "map fst (dict_set k v d) = (if k \<in> fst ` set d then map fst d else map fst d @ [k])"
  by (induction d) force+

lemma distinct_dict_set: "distinct (map fst d) \<Longrightarrow> distinct (map fst (dict_set k v d))"
  by (simp add: keys_dict_set)

lemma map_of_dict_update:
  "distinct (map fst e) \<Longrightarrow>
     map_of (dict_update d e) k = (case map_of e k of Some v \<Rightarrow> Some v | None \<Rightarrow> map_of d k)"
proof (induction e arbitrary: d)
  case Nil
  show ?case by (simp add: dict_update_def)
next
  case (Cons x e)
  have step: "dict_update d (x # e) = dict_update (dict_set (fst x) (snd x) d) e"
    by (simp add: dict_update_def)
  from Cons.prems have d: "distinct (map fst e)" and nx: "fst x \<notin> fst ` set e" by auto
  from nx have none: "map_of e (fst x) = None" by (simp add: map_of_eq_None_iff)
  show ?case
  proof (cases "k = fst x")
    case True
    then show ?thesis unfolding step Cons.IH [OF d] using none by (simp add: map_of_dict_set)
  next
    case False
    then show ?thesis unfolding step Cons.IH [OF d]
      by (cases x) (simp add: map_of_dict_set split: option.splits)
  qed
qed

lemma limit_history_length: "length (limit_history h) \<le> 100"
proof (cases "length h > 100")
  case True
  then have "nat (int (length h) - 100) = length h - 100" by arith
  with True show ?thesis by (simp add: limit_history_def py_last_n_def py_slice_from_def)
next
  case False
  then show ?thesis by (simp add: limit_history_def)
qed

lemma limit_history_suffix: "\<exists>dropped. h = dropped @ limit_history h"
proof (cases "length h > 100")
  case True
  then have "limit_history h = drop (length h - 100) h"
    by (simp add: limit_history_def py_last_n_def py_slice_from_def nat_diff_distrib')
  then show ?thesis by (metis append_take_drop_id)
next
  case False
  then show ?thesis by (simp add: limit_history_def)
qed

lemma updated_model_data_capped:
  assumes "updated_model_data fp now d v md = Inr md'" "distinct (map fst md)"
  shows "distinct (map fst md') \<and> history_capped md'"
  using assms
  by (auto simp: updated_model_data_def Let_def history_capped_def dict_get_def dict_has_def
      map_of_dict_set distinct_dict_set limit_history_length
      split: option.splits pyval.splits if_splits)

lemma set_replace_first: "set (replace_first P y xs) \<subseteq> insert y (set xs)"
  by (induction xs) auto

lemma history_capped_dict_update:
  assumes "distinct (map fst e)" "history_capped e" "dict_has e ''feedback_history''"
  shows "history_capped (dict_update d e)"
proof -
  from assms(3) obtain v where v: "map_of e ''feedback_history'' = Some v"
    by (auto simp: dict_has_def)
  then have "map_of (dict_update d e) ''feedback_history'' = Some v"
    using map_of_dict_update [OF assms(1), of d "''feedback_history''"] by simp
  with v assms(2) show ?thesis by (simp add: history_capped_def dict_get_def)
qed

subsection \<open>The rows the feedback paths write\<close>

lemma history_capped_empty: "history_capped []"
  by (simp add: history_capped_def dict_get_def)

lemma updated_model_data_has_history:
  "updated_model_data fp now d v md = Inr md' \<Longrightarrow> dict_has md' ''feedback_history''"
  by (auto simp: updated_model_data_def Let_def dict_get_def dict_has_def map_of_dict_set
      split: option.splits pyval.splits if_splits)

lemma db_update_market_rows:
  assumes "db_update_market_knowledge db s (no_market_updates\<lparr>mu_data := Some md\<rparr>) = Inr (r, db2)"
    and "distinct (map fst md)" "history_capped md" "dict_has md ''feedback_history''"
  shows "trader_profiles db2 = trader_profiles db \<and> action_patterns db2 = action_patterns db
         \<and> (\<forall>k\<in>set (market_knowledge db2).
               k \<in> set (market_knowledge db) \<or> history_capped (mk_data k))"
proof (cases "find (\<lambda>k. mk_symbol k = s) (market_knowledge db)")
  case None
  with assms(1) show ?thesis
    by (auto simp: db_update_market_knowledge_def split: if_splits)
next
  case (Some k)
  let ?k' = "k\<lparr>mk_name := or_else (mu_name (no_market_updates\<lparr>mu_data := Some md\<rparr>)) (mk_name k),
                 mk_sector := or_else (mu_sector (no_market_updates\<lparr>mu_data := Some md\<rparr>)) (mk_sector k),
                 mk_data := dict_update (mk_data k) md\<rparr>"
  have cap: "history_capped (mk_data ?k')"
    using history_capped_dict_update [OF assms(2) assms(3) assms(4)] by simp
  from assms(1) Some have db2: "db2 = db\<lparr>market_knowledge :=
        replace_first (\<lambda>q. mk_symbol q = s) ?k' (market_knowledge db)\<rparr>"
    by (auto simp: db_update_market_knowledge_def Let_def split: if_splits)
  have "set (market_knowledge db2) \<subseteq> insert ?k' (set (market_knowledge db))"
    unfolding db2 using set_replace_first [of "\<lambda>q. mk_symbol q = s" ?k' "market_knowledge db"] by simp
  with cap show ?thesis unfolding db2 by auto
qed

lemma db_create_market_rows:
  assumes "db_create_market_knowledge db s [] = Inr (k, db1)"
  shows "trader_profiles db1 = trader_profiles db \<and> action_patterns db1 = action_patterns db
         \<and> market_knowledge db1 = market_knowledge db @ [k] \<and> mk_data k = []"
  using assms by (auto simp: db_create_market_knowledge_def Let_def split: if_splits)

lemma find_in_set: "find P xs = Some x \<Longrightarrow> x \<in> set xs"
  by (induction xs) (auto split: if_splits)

lemma try_update_signal_model_rows:
  assumes wf: "wf_markets db"
  shows "trader_profiles (fst (try_update_signal_model fp now d v s db)) = trader_profiles db
     \<and> action_patterns (fst (try_update_signal_model fp now d v s db)) = action_patterns db
     \<and> (\<forall>k\<in>set (market_knowledge (fst (try_update_signal_model fp now d v s db))).
           k \<in> set (market_knowledge db) \<or> history_capped (mk_data k))"
proof (cases "db_get_market_knowledge db s")
  case (Inl e)
  then show ?thesis by (simp add: try_update_signal_model_def)
next
  case (Inr found)
  show ?thesis
  proof (cases found)
    case (Some k)
    then have kin: "k \<in> set (market_knowledge db)"
      using Inr by (auto simp: db_get_market_knowledge_def dest: find_in_set split: if_splits)
    then have dk: "distinct (map fst (mk_data k))"
      using wf by (simp add: wf_markets_def list_all_iff)
    show ?thesis
    proof (cases "updated_model_data fp now d v (mk_data k)")
      case (Inl e)
      with Inr Some show ?thesis by (simp add: try_update_signal_model_def)
    next
      case md: (Inr md)
      note facts = updated_model_data_capped [OF md dk] updated_model_data_has_history [OF md]
      show ?thesis
      proof (cases "db_update_market_knowledge db s (no_market_updates\<lparr>mu_data := Some md\<rparr>)")
        case (Inl e)
        with Inr Some md show ?thesis by (simp add: try_update_signal_model_def)
      next
        case upd: (Inr res)
        obtain r db2 where res: "res = (r, db2)" by (cases res)
        from db_update_market_rows [OF upd [unfolded res]] facts
        show ?thesis using Inr Some md upd res by (simp add: try_update_signal_model_def)
      qed
    qed
  next
    case None
    show ?thesis
    proof (cases "db_create_market_knowledge db s []")
      case (Inl e)
      with Inr None show ?thesis by (simp add: try_update_signal_model_def)
    next
      case cr: (Inr res1)
      obtain k db1 where res1: "res1 = (k, db1)" by (cases res1)
      note c = db_create_market_rows [OF cr [unfolded res1]]
      show ?thesis
      proof (cases "updated_model_data fp now d v (mk_data k)")
        case (Inl e)
        with Inr None cr res1 c show ?thesis
          by (auto simp add: try_update_signal_model_def history_capped_empty)
      next
        case md: (Inr md)
        have "distinct (map fst (mk_data k))" using c by simp
        note facts = updated_model_data_capped [OF md this] updated_model_data_has_history [OF md]
        show ?thesis
        proof (cases "db_update_market_knowledge db1 s (no_market_updates\<lparr>mu_data := Some md\<rparr>)")
          case (Inl e)
          with Inr None cr res1 md c show ?thesis
            by (auto simp add: try_update_signal_model_def history_capped_empty)
        next
          case upd: (Inr res)
          obtain r db2 where res: "res = (r, db2)" by (cases res)
          from db_update_market_rows [OF upd [unfolded res]] facts
          have "trader_profiles db2 = trader_profiles db1 \<and> action_patterns db2 = action_patterns db1
             \<and> (\<forall>k\<in>set (market_knowledge db2).
                   k \<in> set (market_knowledge db1) \<or> history_capped (mk_data k))" by simp
          with c have "trader_profiles db2 = trader_profiles db \<and> action_patterns db2 = action_patterns db
             \<and> (\<forall>k\<in>set (market_knowledge db2).
                   k \<in> set (market_knowledge db) \<or> history_capped (mk_data k))"
            by (auto simp: history_capped_empty)
          then show ?thesis using Inr None cr res1 md upd res
            by (simp add: try_update_signal_model_def)
        qed
      qed
    qed
  qed
qed

lemma db_update_trader_rows:
  assumes "db_update_trader_profile db s (no_trader_updates\<lparr>tu_data := Some md\<rparr>) = Inr (r, db2)"
    and "distinct (map fst md)" "history_capped md" "dict_has md ''feedback_history''"
  shows "market_knowledge db2 = market_knowledge db \<and> action_patterns db2 = action_patterns db
         \<and> (\<forall>p\<in>set (trader_profiles db2).
               p \<in> set (trader_profiles db) \<or> history_capped (tp_data p))"
proof (cases "find (\<lambda>p. tp_trader_id p = s) (trader_profiles db)")
  case None
  with assms(1) show ?thesis
    by (auto simp: db_update_trader_profile_def split: if_splits)
next
  case (Some p)
  obtain p' where db2: "db2 = db\<lparr>trader_profiles :=
        replace_first (\<lambda>q. tp_trader_id q = s) p' (trader_profiles db)\<rparr>"
    and data: "tp_data p' = dict_update (tp_data p) md"
    using assms(1) Some
    by (auto simp: db_update_trader_profile_def Let_def no_trader_updates_def split: if_splits)
  have cap: "history_capped (tp_data p')"
    using history_capped_dict_update [OF assms(2) assms(3) assms(4)] data by simp
  have "set (trader_profiles db2) \<subseteq> insert p' (set (trader_profiles db))"
    unfolding db2 using set_replace_first [of "\<lambda>q. tp_trader_id q = s" p' "trader_profiles db"] by simp
  with cap show ?thesis unfolding db2 by auto
qed

lemma db_create_trader_rows:
  assumes "db_create_trader_profile db s [] = Inr (k, db1)"
  shows "market_knowledge db1 = market_knowledge db \<and> action_patterns db1 = action_patterns db
         \<and> trader_profiles db1 = trader_profiles db @ [k] \<and> tp_data k = []"
  using assms by (auto simp: db_create_trader_profile_def Let_def split: if_splits)

lemma try_update_trader_model_rows:
  assumes wf: "wf_traders db"
  shows "market_knowledge (fst (try_update_trader_model fp now d v s db)) = market_knowledge db
     \<and> action_patterns (fst (try_update_trader_model fp now d v s db)) = action_patterns db
     \<and> (\<forall>k\<in>set (trader_profiles (fst (try_update_trader_model fp now d v s db))).
           k \<in> set (trader_profiles db) \<or> history_capped (tp_data k))"
proof (cases "db_get_trader_profile db s")
  case (Inl e)
  then show ?thesis by (simp add: try_update_trader_model_def)
next
  case (Inr found)
  show ?thesis
  proof (cases found)
    case (Some k)
    then have kin: "k \<in> set (trader_profiles db)"
      using Inr by (auto simp: db_get_trader_profile_def dest: find_in_set split: if_splits)
    then have dk: "distinct (map fst (tp_data k))"
      using wf by (simp add: wf_traders_def list_all_iff)
    show ?thesis
    proof (cases "updated_model_data fp now d v (tp_data k)")
      case (Inl e)
      with Inr Some show ?thesis by (simp add: try_update_trader_model_def)
    next
      case md: (Inr md)
      note facts = updated_model_data_capped [OF md dk] updated_model_data_has_history [OF md]
      show ?thesis
      proof (cases "db_update_trader_profile db s (no_trader_updates\<lparr>tu_data := Some md\<rparr>)")
        case (Inl e)
        with Inr Some md show ?thesis by (simp add: try_update_trader_model_def)
      next
        case upd: (Inr res)
        obtain r db2 where res: "res = (r, db2)" by (cases res)
        from db_update_trader_rows [OF upd [unfolded res]] facts
        show ?thesis using Inr Some md upd res by (simp add: try_update_trader_model_def)
      qed
    qed
  next
    case None
    show ?thesis
    proof (cases "db_create_trader_profile db s []")
      case (Inl e)
      with Inr None show ?thesis by (simp add: try_update_trader_model_def)
    next
      case cr: (Inr res1)
      obtain k db1 where res1: "res1 = (k, db1)" by (cases res1)
      note c = db_create_trader_rows [OF cr [unfolded res1]]
      show ?thesis
      proof (cases "updated_model_data fp now d v (tp_data k)")
        case (Inl e)
        with Inr None cr res1 c show ?thesis
          by (auto simp add: try_update_trader_model_def history_capped_empty)
      next
        case md: (Inr md)
        have "distinct (map fst (tp_data k))" using c by simp
        note facts = updated_model_data_capped [OF md this] updated_model_data_has_history [OF md]
        show ?thesis
        proof (cases "db_update_trader_profile db1 s (no_trader_updates\<lparr>tu_data := Some md\<rparr>)")
          case (Inl e)
          with Inr None cr res1 md c show ?thesis
            by (auto simp add: try_update_trader_model_def history_capped_empty)
        next
          case upd: (Inr res)
          obtain r db2 where res: "res = (r, db2)" by (cases res)
          from db_update_trader_rows [OF upd [unfolded res]] facts
          have "market_knowledge db2 = market_knowledge db1 \<and> action_patterns db2 = action_patterns db1
             \<and> (\<forall>k\<in>set (trader_profiles db2).
                   k \<in> set (trader_profiles db1) \<or> history_capped (tp_data k))" by simp
          with c have "market_knowledge db2 = market_knowledge db \<and> action_patterns db2 = action_patterns db
             \<and> (\<forall>k\<in>set (trader_profiles db2).
                   k \<in> set (trader_profiles db) \<or> history_capped (tp_data k))"
            by (auto simp: history_capped_empty)
          then show ?thesis using Inr None cr res1 md upd res
            by (simp add: try_update_trader_model_def)
        qed
      qed
    qed
  qed
qed

lemma update_signal_model_rows:
  assumes "wf_markets db"
  shows "trader_profiles (update_signal_model fp now d v db) = trader_profiles db
     \<and> (\<forall>k\<in>set (market_knowledge (update_signal_model fp now d v db)).
           k \<in> set (market_knowledge db) \<or> history_capped (mk_data k))"
  using try_update_signal_model_rows [OF assms]
  by (simp add: update_signal_model_def split: option.splits)

lemma update_trader_model_rows:
  assumes "wf_traders db"
  shows "market_knowledge (update_trader_model fp now d v db) = market_knowledge db
     \<and> (\<forall>p\<in>set (trader_profiles (update_trader_model fp now d v db)).
           p \<in> set (trader_profiles db) \<or> history_capped (tp_data p))"
  using try_update_trader_model_rows [OF assms]
  by (simp add: update_trader_model_def split: option.splits)

lemma db_update_action_pattern_rows:
  "db_update_action_pattern db t k u = Inr (r, db') \<Longrightarrow>
     market_knowledge db' = market_knowledge db \<and> trader_profiles db' = trader_profiles db"
  by (auto simp: db_update_action_pattern_def Let_def split: if_splits option.splits)

lemma update_action_pattern_from_feedback_rows:
  "market_knowledge (update_action_pattern_from_feedback fp v t k db) = market_knowledge db
   \<and> trader_profiles (update_action_pattern_from_feedback fp v t k db) = trader_profiles db"
proof (cases "db_get_action_pattern db t k")
  case (Inl e)
  then show ?thesis by (simp add: update_action_pattern_from_feedback_def)
next
  case (Inr found)
  show ?thesis
  proof (cases found)
    case None
    with Inr show ?thesis by (simp add: update_action_pattern_from_feedback_def)
  next
    case (Some p)
    with Inr show ?thesis
      by (auto simp: update_action_pattern_from_feedback_def Let_def
          dest: db_update_action_pattern_rows split: sum.splits)
  qed
qed

lemma update_strategy_model_rows:
  "market_knowledge (update_strategy_model fp d v db) = market_knowledge db
   \<and> trader_profiles (update_strategy_model fp d v db) = trader_profiles db"
  by (simp add: update_strategy_model_def Let_def update_action_pattern_from_feedback_rows
      split: option.splits)

subsection \<open>Shared facts about dictionaries and the Q-table\<close>







lemma update_q_value_config:
  "min_exploration_rate (snd (update_q_value L s a r ns rl)) = min_exploration_rate rl"
  "exploration_decay (snd (update_q_value L s a r ns rl)) = exploration_decay rl"
  "exploration_rate (snd (update_q_value L s a r ns rl))
     = max (min_exploration_rate rl) (exploration_rate rl * exploration_decay rl)"
  by (simp_all add: update_q_value_def Let_def)

lemma run_updates_Nil: "run_updates L [] rl = rl"
  by (simp add: run_updates_def)

lemma run_updates_snoc:
  "run_updates L (cs @ [c]) rl =
     snd (update_q_value L (fst c) (fst (snd c)) (fst (snd (snd c))) (snd (snd (snd c)))
            (run_updates L cs rl))"
  by (simp add: run_updates_def)

lemma run_updates_config:
  "min_exploration_rate (run_updates L cs rl) = min_exploration_rate rl
   \<and> exploration_decay (run_updates L cs rl) = exploration_decay rl"
proof (induction cs rule: rev_induct)
  case Nil
  show ?case by (simp add: run_updates_Nil)
next
  case (snoc c cs)
  then show ?case by (simp add: run_updates_snoc update_q_value_config)
qed

lemma run_updates_floor:
  "min_exploration_rate rl \<le> exploration_rate rl
     \<Longrightarrow> min_exploration_rate rl \<le> exploration_rate (run_updates L cs rl)"
proof (induction cs rule: rev_induct)
  case Nil
  then show ?case by (simp add: run_updates_Nil)
next
  case (snoc c cs)
  then show ?case by (simp add: run_updates_snoc update_q_value_config run_updates_config)
qed

lemma hd_sort_key_in: "xs \<noteq> [] \<Longrightarrow> hd (sort_key f xs) \<in> set xs"
proof -
  assume "xs \<noteq> []"
  then have "sort_key f xs \<noteq> []" by (metis length_0_conv length_sort)
  then have "hd (sort_key f xs) \<in> set (sort_key f xs)" by (rule hd_in_set)
  then show ?thesis by simp
qed

subsection \<open>C5: the Q-learning update\<close>


subsection \<open>C6: canonical keys\<close>

lemma sort_key_fst_unique:
  fixes as bs :: "('k::linorder \<times> 'v) list"
  assumes "distinct (map fst as)" "distinct (map fst bs)" "set as = set bs"
  shows "sort_key fst as = sort_key fst bs"
proof (rule map_sorted_distinct_set_unique [where f = fst])
  have "inj_on fst (set as)" using assms(1) by (simp add: distinct_map)
  then show "inj_on fst (set (sort_key fst as) \<union> set (sort_key fst bs))"
    using assms(3) by simp
  show "sorted (map fst (sort_key fst as))" by (rule sorted_sort_key)
  show "sorted (map fst (sort_key fst bs))" by (rule sorted_sort_key)
  show "distinct (map fst (sort_key fst as))" using assms(1) by (simp add: distinct_map)
  show "distinct (map fst (sort_key fst bs))" using assms(2) by (simp add: distinct_map)
  show "set (sort_key fst as) = set (sort_key fst bs)" using assms(3) by simp
qed

lemma sort_keys_canonical:
  "wf_pyval a \<Longrightarrow> wf_pyval b \<Longrightarrow> same_up_to_key_order a b \<Longrightarrow> sort_keys a = sort_keys b"
proof (induction a b rule: same_up_to_key_order.induct)
  case (1 xs ys)
  from "1.prems" have l2: "list_all2 same_up_to_key_order xs ys"
    and wx: "\<And>x. x \<in> set xs \<Longrightarrow> wf_pyval x" and wy: "\<And>y. y \<in> set ys \<Longrightarrow> wf_pyval y"
    by (auto simp: list_all_iff)
  have "list_all2 (\<lambda>x y. sort_keys x = sort_keys y) xs ys"
  proof (rule list.rel_mono_strong [OF l2])
    fix x y assume "x \<in> set xs" "y \<in> set ys" "same_up_to_key_order x y"
    then show "sort_keys x = sort_keys y" using "1.IH" wx wy by blast
  qed
  then have "map sort_keys xs = map sort_keys ys"
    by (induction xs ys rule: list_all2_induct) simp_all
  then show ?case by simp
next
  case (2 xs ys)
  let ?f = "\<lambda>kv. (fst kv, sort_keys (snd kv))"
  from "2.prems" have dx: "distinct (map fst xs)" and dy: "distinct (map fst ys)"
    and wx: "\<And>kv. kv \<in> set xs \<Longrightarrow> wf_pyval (snd kv)"
    and wy: "\<And>kv. kv \<in> set ys \<Longrightarrow> wf_pyval (snd kv)"
    and len: "length xs = length ys"
    by (simp_all add: list_all_iff)
  from "2.prems" have la: "\<And>kv. kv \<in> set xs \<Longrightarrow>
      (case map_of ys (fst kv) of None \<Rightarrow> False | Some w \<Rightarrow> same_up_to_key_order (snd kv) w)"
    by (simp add: list_all_iff)
  have each: "\<exists>w. map_of ys (fst kv) = Some w \<and> same_up_to_key_order (snd kv) w"
    if "kv \<in> set xs" for kv
    using la [OF that] by (cases "map_of ys (fst kv)") simp_all
  have sub: "set (map ?f xs) \<subseteq> set (map ?f ys)"
  proof
    fix p assume "p \<in> set (map ?f xs)"
    then obtain kv where kv: "kv \<in> set xs" and p: "p = ?f kv" by auto
    from each [OF kv] obtain w where w: "map_of ys (fst kv) = Some w"
      and s: "same_up_to_key_order (snd kv) w" by blast
    from w have in_ys: "(fst kv, w) \<in> set ys" by (rule map_of_SomeD)
    have "sort_keys (snd kv) = sort_keys w"
      using "2.IH" [OF kv w] wx [OF kv] wy [OF in_ys] s by simp
    then have "p = ?f (fst kv, w)" using p by simp
    moreover have "?f (fst kv, w) \<in> ?f ` set ys" using in_ys by (rule imageI)
    ultimately show "p \<in> set (map ?f ys)" by simp
  qed
  have dfx: "distinct (map fst (map ?f xs))" using dx by (simp add: comp_def)
  have dfy: "distinct (map fst (map ?f ys))" using dy by (simp add: comp_def)
  have "distinct (map ?f xs)"
    using distinct_map [THEN iffD1, THEN conjunct1, OF dfx] .
  then have cx: "card (set (map ?f xs)) = length xs"
    using distinct_card [of "map ?f xs"] by simp
  have "distinct (map ?f ys)"
    using distinct_map [THEN iffD1, THEN conjunct1, OF dfy] .
  then have cy: "card (set (map ?f ys)) = length ys"
    using distinct_card [of "map ?f ys"] by simp
  have "set (map ?f xs) = set (map ?f ys)"
  proof (rule card_subset_eq)
    show "finite (set (map ?f ys))" by (rule finite_set)
    show "set (map ?f xs) \<subseteq> set (map ?f ys)" by (rule sub)
    show "card (set (map ?f xs)) = card (set (map ?f ys))" using cx cy len by simp
  qed
  then have "sort_key fst (map ?f xs) = sort_key fst (map ?f ys)"
    using dfx dfy by (intro sort_key_fst_unique)
  then show ?case by simp
qed simp_all

text \<open>
  C6: for any two dictionary payloads that are structurally equal and differ only in
  the order of their keys (at any depth), the state key and the action key of the
  reinforcement engine and the pattern key of the procedural tier are each the same
  for both payloads, whatever the digest and the encoder are.
\<close>

theorem key_canonicalization:
  "wf_pyval (PDict a) \<and> wf_pyval (PDict b) \<and> same_up_to_key_order (PDict a) (PDict b) \<longrightarrow>
     get_state_key L (PDict a) = get_state_key L (PDict b)
     \<and> get_action_key L (PDict a) = get_action_key L (PDict b)
     \<and> generate_pattern_key L (PDict a) = generate_pattern_key L (PDict b)"
proof
  assume h: "wf_pyval (PDict a) \<and> wf_pyval (PDict b) \<and> same_up_to_key_order (PDict a) (PDict b)"
  then have "sort_keys (PDict a) = sort_keys (PDict b)"
    by (intro sort_keys_canonical) simp_all
  then have "json_dumps_sorted L (PDict a) = json_dumps_sorted L (PDict b)"
    unfolding json_dumps_sorted_def by (rule arg_cong)
  then show "get_state_key L (PDict a) = get_state_key L (PDict b)
     \<and> get_action_key L (PDict a) = get_action_key L (PDict b)
     \<and> generate_pattern_key L (PDict a) = generate_pattern_key L (PDict b)"
    by (simp add: get_state_key_def get_action_key_def generate_pattern_key_def)
qed

theorem key_canonicalization_witness:
  "get_state_key example_lib (PDict payload_a) = get_state_key example_lib (PDict payload_b)
   \<and> get_action_key example_lib (PDict payload_a) = get_action_key example_lib (PDict payload_b)
   \<and> generate_pattern_key example_lib (PDict payload_a)
       = generate_pattern_key example_lib (PDict payload_b)"
proof -
  have "wf_pyval (PDict payload_a) \<and> wf_pyval (PDict payload_b)
        \<and> same_up_to_key_order (PDict payload_a) (PDict payload_b)"
    by (simp add: payload_a_def payload_b_def)
  then show ?thesis
    using key_canonicalization [of payload_a payload_b example_lib] by blast
qed

subsection \<open>C7: calculate_metrics\<close>







subsection \<open>C8: decay of the exploration rate\<close>

text \<open>
  C8, as stated, on the test configuration (minimum 0.01, decay 0.995) with the
  exploration rate set to 0.0, as the exploitation test sets it: one
  \<open>update_q_value\<close> raises the rate from 0.0 to the floor 0.01, so the rate is not
  non-increasing across that update.
\<close>

theorem exploration_rate_rises_to_floor:
  "exploration_rate (default_rl 0.0)
     < exploration_rate
         (snd (update_q_value example_lib (PStr ''s1'') (PStr ''a1'') 1.0 (PStr ''s2'')
                 (default_rl 0.0)))"
  by (simp add: update_q_value_config default_rl_def)

text \<open>
  C8 (amended): after every \<open>update_q_value\<close> call of any sequence the exploration
  rate is at least \<open>min_exploration_rate\<close>; and when \<open>exploration_decay \<le> 1\<close> and
  \<open>0 \<le> min_exploration_rate \<le> exploration_rate\<close> hold before the first call, the
  rate after each call is at most the rate before it.
\<close>

theorem exploration_rate_decay:
  "min_exploration_rate rl \<le> exploration_rate (run_updates L (cs @ [c]) rl)
   \<and> (exploration_decay rl \<le> 1 \<and> 0 \<le> min_exploration_rate rl
        \<and> min_exploration_rate rl \<le> exploration_rate rl \<longrightarrow>
      exploration_rate (run_updates L (cs @ [c]) rl) \<le> exploration_rate (run_updates L cs rl))"
proof (intro conjI impI)
  show "min_exploration_rate rl \<le> exploration_rate (run_updates L (cs @ [c]) rl)"
    by (simp add: run_updates_snoc update_q_value_config run_updates_config)
next
  assume a: "exploration_decay rl \<le> 1 \<and> 0 \<le> min_exploration_rate rl
        \<and> min_exploration_rate rl \<le> exploration_rate rl"
  let ?r = "exploration_rate (run_updates L cs rl)"
  have fl: "min_exploration_rate rl \<le> ?r" using a by (simp add: run_updates_floor)
  then have "0 \<le> ?r" using a by simp
  then have "?r * exploration_decay rl \<le> ?r"
    using a by (simp add: mult_left_le)
  with fl show "exploration_rate (run_updates L (cs @ [c]) rl) \<le> ?r"
    by (simp add: run_updates_snoc update_q_value_config run_updates_config)
qed

theorem exploration_rate_decay_witness:
  "min_exploration_rate (default_rl 0.2)
     \<le> exploration_rate
         (run_updates example_lib
            ([(PStr ''s1'', PStr ''a1'', 1.0, PStr ''s2'')]
              @ [(PStr ''s2'', PStr ''a1'', 0.5, PStr ''s1'')]) (default_rl 0.2))
   \<and> exploration_rate
         (run_updates example_lib
            ([(PStr ''s1'', PStr ''a1'', 1.0, PStr ''s2'')]
              @ [(PStr ''s2'', PStr ''a1'', 0.5, PStr ''s1'')]) (default_rl 0.2))
     \<le> exploration_rate
         (run_updates example_lib [(PStr ''s1'', PStr ''a1'', 1.0, PStr ''s2'')] (default_rl 0.2))"
proof -
  have "exploration_decay (default_rl 0.2) \<le> 1 \<and> 0 \<le> min_exploration_rate (default_rl 0.2)
        \<and> min_exploration_rate (default_rl 0.2) \<le> exploration_rate (default_rl 0.2)"
    by (simp add: default_rl_def)
  then show ?thesis
    using exploration_rate_decay [of "default_rl 0.2" example_lib
        "[(PStr ''s1'', PStr ''a1'', 1.0, PStr ''s2'')]" "(PStr ''s2'', PStr ''a1'', 0.5, PStr ''s1'')"]
    by blast
qed

subsection \<open>C10: select_action\<close>

text \<open>
  C10: for every state, \<open>select_action\<close> with an empty candidate list returns
  \<open>None\<close> and leaves the engine, with its action history, unchanged; with a
  non-empty candidate list it returns an element of the list and appends exactly one
  entry to the action history, changing nothing else.
\<close>

theorem select_action_result:
  "select_action L rnd pick state [] rl = (PNone, rl)
   \<and> (possible_actions \<noteq> [] \<longrightarrow>
        fst (select_action L rnd pick state possible_actions rl) \<in> set possible_actions
        \<and> (\<exists>e. snd (select_action L rnd pick state possible_actions rl)
                 = rl\<lparr>action_history := action_history rl @ [e]\<rparr>))"
proof (intro conjI impI)
  show "select_action L rnd pick state [] rl = (PNone, rl)"
    by (simp add: select_action_def)
next
  assume ne: "possible_actions \<noteq> []"
  show "fst (select_action L rnd pick state possible_actions rl) \<in> set possible_actions"
  proof (cases "rnd < exploration_rate rl")
    case True
    with ne show ?thesis by (simp add: select_action_def random_choice_def Let_def)
  next
    case False
    let ?qvs = "map (\<lambda>action.
                     (action,
                      case dict_get (q_values rl)
                             (get_state_action_key (get_state_key L state)
                                (get_action_key L action)) of
                        None \<Rightarrow> 0 | Some q \<Rightarrow> q)) possible_actions"
    have "hd (sort_key (\<lambda>x. - snd x) ?qvs) \<in> set ?qvs"
      using ne by (intro hd_sort_key_in) simp
    then have "fst (hd (sort_key (\<lambda>x. - snd x) ?qvs)) \<in> set possible_actions"
      by auto
    with ne False show ?thesis by (simp add: select_action_def Let_def)
  qed
next
  assume ne: "possible_actions \<noteq> []"
  then show "\<exists>e. snd (select_action L rnd pick state possible_actions rl)
                 = rl\<lparr>action_history := action_history rl @ [e]\<rparr>"
    by (cases "rnd < exploration_rate rl") (auto simp add: select_action_def Let_def)
qed

theorem select_action_result_witness:
  "fst (select_action example_lib 0.5 0 (PStr ''s1'') [PStr ''buy'', PStr ''sell''] (default_rl 0.2))
     \<in> set [PStr ''buy'', PStr ''sell'']
   \<and> (\<exists>e. snd (select_action example_lib 0.5 0 (PStr ''s1'') [PStr ''buy'', PStr ''sell'']
                  (default_rl 0.2))
            = (default_rl 0.2)\<lparr>action_history := action_history (default_rl 0.2) @ [e]\<rparr>)"
  using select_action_result [of example_lib "0.5" "0" "PStr ''s1''" "default_rl 0.2"
      "[PStr ''buy'', PStr ''sell'']"]
  by simp


end
